theory Spec2Isabelle
  imports Complex_Main
begin

section \<open>The weather controller: data model\<close>

text \<open>
  The embedding follows \<^verbatim>\<open>src/controllers/weatherController.js\<close>: the two handlers
  \<^verbatim>\<open>getKaohsiungWeather\<close> and \<^verbatim>\<open>getWeatherByCity\<close>, the table \<^verbatim>\<open>cityMap\<close>, the loop that
  flattens the upstream document, and the catch block. A handler is a function of the
  configured key, of the upstream service (the outcome of each request), of the engine's
  lower-casing of strings that are not ASCII, and of the city token; it returns the
  outbound calls it made and the HTTP response it sent, if it sent one. An exception is
  a value of type \<open>exn\<close>, and the catch block is a function of it. The diagnostic line
  written with \<^verbatim>\<open>console.error\<close> is not part of the model.

  A JavaScript string is modelled as a \<^typ>\<open>string\<close> holding its UTF-8 bytes; the
  properties below only compare, concatenate and search strings, and UTF-8 preserves
  all three. The literals of the source that are not ASCII are given names here, each
  with its code points.
\<close>

subsection \<open>String literals of the source\<close>

definition err_server_config :: string where \<comment> \<open>label of the configuration fault: U+4F3A U+670D U+5668 U+8A2D U+5B9A U+932F U+8AA4\<close>
  "err_server_config = [CHR 0xE4, CHR 0xBC, CHR 0xBA, CHR 0xE6, CHR 0x9C, CHR 0x8D, CHR 0xE5, CHR 0x99, CHR 0xA8, CHR 0xE8, CHR 0xA8, CHR 0xAD, CHR 0xE5, CHR 0xAE, CHR 0x9A, CHR 0xE9, CHR 0x8C, CHR 0xAF, CHR 0xE8, CHR 0xAA, CHR 0xA4]"

definition msg_set_api_key :: string where \<comment> \<open>message of the configuration fault: U+8ACB U+5728 U+0020 U+002E U+0065 U+006E U+0076 U+0020 U+6A94 U+6848 U+4E2D U+8A2D U+5B9A U+0020 U+0043 U+0057 U+0041 U+005F U+0041 U+0050 U+0049 U+005F U+004B U+0045 U+0059\<close>
  "msg_set_api_key = [CHR 0xE8, CHR 0xAB, CHR 0x8B, CHR 0xE5, CHR 0x9C, CHR 0xA8] @ '' .env '' @ [CHR 0xE6, CHR 0xAA, CHR 0x94, CHR 0xE6, CHR 0xA1, CHR 0x88, CHR 0xE4, CHR 0xB8, CHR 0xAD, CHR 0xE8, CHR 0xA8, CHR 0xAD, CHR 0xE5, CHR 0xAE, CHR 0x9A] @ '' CWA_API_KEY''"

definition err_unsupported_city :: string where \<comment> \<open>label of the unsupported-city fault: U+4E0D U+652F U+63F4 U+7684 U+57CE U+5E02\<close>
  "err_unsupported_city = [CHR 0xE4, CHR 0xB8, CHR 0x8D, CHR 0xE6, CHR 0x94, CHR 0xAF, CHR 0xE6, CHR 0x8F, CHR 0xB4, CHR 0xE7, CHR 0x9A, CHR 0x84, CHR 0xE5, CHR 0x9F, CHR 0x8E, CHR 0xE5, CHR 0xB8, CHR 0x82]"

definition err_no_data :: string where \<comment> \<open>label of the no-data fault: U+67E5 U+7121 U+8CC7 U+6599\<close>
  "err_no_data = [CHR 0xE6, CHR 0x9F, CHR 0xA5, CHR 0xE7, CHR 0x84, CHR 0xA1, CHR 0xE8, CHR 0xB3, CHR 0x87, CHR 0xE6, CHR 0x96, CHR 0x99]"

definition msg_cannot_get :: string where \<comment> \<open>head of the no-data message template: U+7121 U+6CD5 U+53D6 U+5F97\<close>
  "msg_cannot_get = [CHR 0xE7, CHR 0x84, CHR 0xA1, CHR 0xE6, CHR 0xB3, CHR 0x95, CHR 0xE5, CHR 0x8F, CHR 0x96, CHR 0xE5, CHR 0xBE, CHR 0x97]"

definition msg_weather_data :: string where \<comment> \<open>tail of the no-data message template: U+5929 U+6C23 U+8CC7 U+6599\<close>
  "msg_weather_data = [CHR 0xE5, CHR 0xA4, CHR 0xA9, CHR 0xE6, CHR 0xB0, CHR 0xA3, CHR 0xE8, CHR 0xB3, CHR 0x87, CHR 0xE6, CHR 0x96, CHR 0x99]"

definition msg_no_taoyuan_data :: string where \<comment> \<open>no-data message of the single-city handler: U+7121 U+6CD5 U+53D6 U+5F97 U+6843 U+5712 U+5E02 U+5929 U+6C23 U+8CC7 U+6599\<close>
  "msg_no_taoyuan_data = [CHR 0xE7, CHR 0x84, CHR 0xA1, CHR 0xE6, CHR 0xB3, CHR 0x95, CHR 0xE5, CHR 0x8F, CHR 0x96, CHR 0xE5, CHR 0xBE, CHR 0x97, CHR 0xE6, CHR 0xA1, CHR 0x83, CHR 0xE5, CHR 0x9C, CHR 0x92, CHR 0xE5, CHR 0xB8, CHR 0x82, CHR 0xE5, CHR 0xA4, CHR 0xA9, CHR 0xE6, CHR 0xB0, CHR 0xA3, CHR 0xE8, CHR 0xB3, CHR 0x87, CHR 0xE6, CHR 0x96, CHR 0x99]"

definition err_cwa_api :: string where \<comment> \<open>label of a forwarded upstream fault: U+0043 U+0057 U+0041 U+0020 U+0041 U+0050 U+0049 U+0020 U+932F U+8AA4\<close>
  "err_cwa_api = ''CWA API '' @ [CHR 0xE9, CHR 0x8C, CHR 0xAF, CHR 0xE8, CHR 0xAA, CHR 0xA4]"

definition msg_cannot_get_weather :: string where \<comment> \<open>fallback message of a forwarded upstream fault: U+7121 U+6CD5 U+53D6 U+5F97 U+5929 U+6C23 U+8CC7 U+6599\<close>
  "msg_cannot_get_weather = [CHR 0xE7, CHR 0x84, CHR 0xA1, CHR 0xE6, CHR 0xB3, CHR 0x95, CHR 0xE5, CHR 0x8F, CHR 0x96, CHR 0xE5, CHR 0xBE, CHR 0x97, CHR 0xE5, CHR 0xA4, CHR 0xA9, CHR 0xE6, CHR 0xB0, CHR 0xA3, CHR 0xE8, CHR 0xB3, CHR 0x87, CHR 0xE6, CHR 0x96, CHR 0x99]"

definition err_server :: string where \<comment> \<open>label of the unclassified fault: U+4F3A U+670D U+5668 U+932F U+8AA4\<close>
  "err_server = [CHR 0xE4, CHR 0xBC, CHR 0xBA, CHR 0xE6, CHR 0x9C, CHR 0x8D, CHR 0xE5, CHR 0x99, CHR 0xA8, CHR 0xE9, CHR 0x8C, CHR 0xAF, CHR 0xE8, CHR 0xAA, CHR 0xA4]"

definition msg_retry_later :: string where \<comment> \<open>message of the unclassified fault: U+7121 U+6CD5 U+53D6 U+5F97 U+5929 U+6C23 U+8CC7 U+6599 U+FF0C U+8ACB U+7A0D U+5F8C U+518D U+8A66\<close>
  "msg_retry_later = [CHR 0xE7, CHR 0x84, CHR 0xA1, CHR 0xE6, CHR 0xB3, CHR 0x95, CHR 0xE5, CHR 0x8F, CHR 0x96, CHR 0xE5, CHR 0xBE, CHR 0x97, CHR 0xE5, CHR 0xA4, CHR 0xA9, CHR 0xE6, CHR 0xB0, CHR 0xA3, CHR 0xE8, CHR 0xB3, CHR 0x87, CHR 0xE6, CHR 0x96, CHR 0x99, CHR 0xEF, CHR 0xBC, CHR 0x8C, CHR 0xE8, CHR 0xAB, CHR 0x8B, CHR 0xE7, CHR 0xA8, CHR 0x8D, CHR 0xE5, CHR 0xBE, CHR 0x8C, CHR 0xE5, CHR 0x86, CHR 0x8D, CHR 0xE8, CHR 0xA9, CHR 0xA6]"

definition degC :: string where \<comment> \<open>temperature unit: U+00B0 U+0043\<close>
  "degC = [CHR 0xC2, CHR 0xB0] @ ''C''"

definition zh_taipei :: string where \<comment> \<open>U+81FA U+5317 U+5E02\<close>
  "zh_taipei = [CHR 0xE8, CHR 0x87, CHR 0xBA, CHR 0xE5, CHR 0x8C, CHR 0x97, CHR 0xE5, CHR 0xB8, CHR 0x82]"

definition zh_taoyuan :: string where \<comment> \<open>U+6843 U+5712 U+5E02\<close>
  "zh_taoyuan = [CHR 0xE6, CHR 0xA1, CHR 0x83, CHR 0xE5, CHR 0x9C, CHR 0x92, CHR 0xE5, CHR 0xB8, CHR 0x82]"

definition zh_taichung :: string where \<comment> \<open>U+81FA U+4E2D U+5E02\<close>
  "zh_taichung = [CHR 0xE8, CHR 0x87, CHR 0xBA, CHR 0xE4, CHR 0xB8, CHR 0xAD, CHR 0xE5, CHR 0xB8, CHR 0x82]"

definition zh_tainan :: string where \<comment> \<open>U+81FA U+5357 U+5E02\<close>
  "zh_tainan = [CHR 0xE8, CHR 0x87, CHR 0xBA, CHR 0xE5, CHR 0x8D, CHR 0x97, CHR 0xE5, CHR 0xB8, CHR 0x82]"

definition zh_kaohsiung :: string where \<comment> \<open>U+9AD8 U+96C4 U+5E02\<close>
  "zh_kaohsiung = [CHR 0xE9, CHR 0xAB, CHR 0x98, CHR 0xE9, CHR 0x9B, CHR 0x84, CHR 0xE5, CHR 0xB8, CHR 0x82]"

definition zh_keelung :: string where \<comment> \<open>U+57FA U+9686 U+5E02\<close>
  "zh_keelung = [CHR 0xE5, CHR 0x9F, CHR 0xBA, CHR 0xE9, CHR 0x9A, CHR 0x86, CHR 0xE5, CHR 0xB8, CHR 0x82]"

definition zh_hsinchu :: string where \<comment> \<open>U+65B0 U+7AF9 U+5E02\<close>
  "zh_hsinchu = [CHR 0xE6, CHR 0x96, CHR 0xB0, CHR 0xE7, CHR 0xAB, CHR 0xB9, CHR 0xE5, CHR 0xB8, CHR 0x82]"

definition zh_newtaipei :: string where \<comment> \<open>U+65B0 U+5317 U+5E02\<close>
  "zh_newtaipei = [CHR 0xE6, CHR 0x96, CHR 0xB0, CHR 0xE5, CHR 0x8C, CHR 0x97, CHR 0xE5, CHR 0xB8, CHR 0x82]"

definition zh_hsinchucounty :: string where \<comment> \<open>U+65B0 U+7AF9 U+7E23\<close>
  "zh_hsinchucounty = [CHR 0xE6, CHR 0x96, CHR 0xB0, CHR 0xE7, CHR 0xAB, CHR 0xB9, CHR 0xE7, CHR 0xB8, CHR 0xA3]"

definition zh_miaoli :: string where \<comment> \<open>U+82D7 U+6817 U+7E23\<close>
  "zh_miaoli = [CHR 0xE8, CHR 0x8B, CHR 0x97, CHR 0xE6, CHR 0xA0, CHR 0x97, CHR 0xE7, CHR 0xB8, CHR 0xA3]"

definition zh_changhua :: string where \<comment> \<open>U+5F70 U+5316 U+7E23\<close>
  "zh_changhua = [CHR 0xE5, CHR 0xBD, CHR 0xB0, CHR 0xE5, CHR 0x8C, CHR 0x96, CHR 0xE7, CHR 0xB8, CHR 0xA3]"

definition zh_nantou :: string where \<comment> \<open>U+5357 U+6295 U+7E23\<close>
  "zh_nantou = [CHR 0xE5, CHR 0x8D, CHR 0x97, CHR 0xE6, CHR 0x8A, CHR 0x95, CHR 0xE7, CHR 0xB8, CHR 0xA3]"

definition zh_yunlin :: string where \<comment> \<open>U+96F2 U+6797 U+7E23\<close>
  "zh_yunlin = [CHR 0xE9, CHR 0x9B, CHR 0xB2, CHR 0xE6, CHR 0x9E, CHR 0x97, CHR 0xE7, CHR 0xB8, CHR 0xA3]"

definition zh_chiayi :: string where \<comment> \<open>U+5609 U+7FA9 U+5E02\<close>
  "zh_chiayi = [CHR 0xE5, CHR 0x98, CHR 0x89, CHR 0xE7, CHR 0xBE, CHR 0xA9, CHR 0xE5, CHR 0xB8, CHR 0x82]"

definition zh_chiayicounty :: string where \<comment> \<open>U+5609 U+7FA9 U+7E23\<close>
  "zh_chiayicounty = [CHR 0xE5, CHR 0x98, CHR 0x89, CHR 0xE7, CHR 0xBE, CHR 0xA9, CHR 0xE7, CHR 0xB8, CHR 0xA3]"

definition zh_pingtung :: string where \<comment> \<open>U+5C4F U+6771 U+7E23\<close>
  "zh_pingtung = [CHR 0xE5, CHR 0xB1, CHR 0x8F, CHR 0xE6, CHR 0x9D, CHR 0xB1, CHR 0xE7, CHR 0xB8, CHR 0xA3]"

definition zh_yilan :: string where \<comment> \<open>U+5B9C U+862D U+7E23\<close>
  "zh_yilan = [CHR 0xE5, CHR 0xAE, CHR 0x9C, CHR 0xE8, CHR 0x98, CHR 0xAD, CHR 0xE7, CHR 0xB8, CHR 0xA3]"

definition zh_hualien :: string where \<comment> \<open>U+82B1 U+84EE U+7E23\<close>
  "zh_hualien = [CHR 0xE8, CHR 0x8A, CHR 0xB1, CHR 0xE8, CHR 0x93, CHR 0xAE, CHR 0xE7, CHR 0xB8, CHR 0xA3]"

definition zh_taitung :: string where \<comment> \<open>U+81FA U+6771 U+7E23\<close>
  "zh_taitung = [CHR 0xE8, CHR 0x87, CHR 0xBA, CHR 0xE6, CHR 0x9D, CHR 0xB1, CHR 0xE7, CHR 0xB8, CHR 0xA3]"

definition zh_penghu :: string where \<comment> \<open>U+6F8E U+6E56 U+7E23\<close>
  "zh_penghu = [CHR 0xE6, CHR 0xBE, CHR 0x8E, CHR 0xE6, CHR 0xB9, CHR 0x96, CHR 0xE7, CHR 0xB8, CHR 0xA3]"

definition zh_kinmen :: string where \<comment> \<open>U+91D1 U+9580 U+7E23\<close>
  "zh_kinmen = [CHR 0xE9, CHR 0x87, CHR 0x91, CHR 0xE9, CHR 0x96, CHR 0x80, CHR 0xE7, CHR 0xB8, CHR 0xA3]"

definition zh_lienchiang :: string where \<comment> \<open>U+9023 U+6C5F U+7E23\<close>
  "zh_lienchiang = [CHR 0xE9, CHR 0x80, CHR 0xA3, CHR 0xE6, CHR 0xB1, CHR 0x9F, CHR 0xE7, CHR 0xB8, CHR 0xA3]"

definition api_url :: string where
  "api_url = ''https://opendata.cwa.gov.tw/api'' @ ''/v1/rest/datastore/F-C0032-001''"

subsection \<open>JavaScript values and property lookup\<close>

text \<open>
  The values that \<^verbatim>\<open>cityMap[cityParam]\<close> can produce: a string stored in the object
  literal, \<^verbatim>\<open>undefined\<close>, or a member inherited from \<^verbatim>\<open>Object.prototype\<close>
  (a built-in function, or the prototype object itself for \<^verbatim>\<open>__proto__\<close>).
\<close>

datatype jsval = JUndefined | JString string | JFunction string | JObjectPrototype

fun truthy :: "jsval \<Rightarrow> bool" where
  "truthy JUndefined = False"
| "truthy (JString s) = (s \<noteq> [])"
| "truthy (JFunction f) = True"
| "truthy JObjectPrototype = True"

fun ToString :: "jsval \<Rightarrow> string" where
  "ToString JUndefined = ''undefined''"
| "ToString (JString s) = s"
| "ToString (JFunction f) = ''function '' @ f @ ''() { [native code] }''"
| "ToString JObjectPrototype = ''[object Object]''"

text \<open>A string-valued member that may be missing: \<open>None\<close> is \<^verbatim>\<open>undefined\<close>.\<close>

fun js :: "string option \<Rightarrow> jsval" where
  "js None = JUndefined"
| "js (Some s) = JString s"

text \<open>
  \<^verbatim>\<open>String.prototype.toLowerCase\<close>. On a string of ASCII characters (bytes below 128) it
  maps the letters A to Z to a to z and keeps every other character. On a string with a
  character outside ASCII the result is given by the engine's Unicode tables (which map
  U+212A, the Kelvin sign, to \<^verbatim>\<open>k\<close>, for one); the model takes the engine's function on such
  strings as the parameter \<open>lower_non_ascii\<close> and assumes nothing about it.
\<close>

definition lower_char :: "char \<Rightarrow> char" where
  "lower_char c =
     (case map_of (zip ''ABCDEFGHIJKLMNOPQRSTUVWXYZ'' ''abcdefghijklmnopqrstuvwxyz'') c of
        Some l \<Rightarrow> l
      | None \<Rightarrow> c)"

definition is_ascii :: "string \<Rightarrow> bool" where
  "is_ascii s = list_all (\<lambda>c. \<not> digit7 c) s"

definition toLowerCase :: "(string \<Rightarrow> string) \<Rightarrow> string \<Rightarrow> string" where
  "toLowerCase lower_non_ascii s = (if is_ascii s then map lower_char s else lower_non_ascii s)"

text \<open>
  The members every object literal inherits from \<^verbatim>\<open>Object.prototype\<close>. The member
  \<^verbatim>\<open>constructor\<close> is the function \<^verbatim>\<open>Object\<close>; the other functions carry their own name.
\<close>

definition Object_prototype_functions :: "(string \<times> string) list" where
  "Object_prototype_functions =
     [(''constructor'', ''Object''),
      (''__defineGetter__'', ''__defineGetter__''),
      (''__defineSetter__'', ''__defineSetter__''),
      (''hasOwnProperty'', ''hasOwnProperty''),
      (''__lookupGetter__'', ''__lookupGetter__''),
      (''__lookupSetter__'', ''__lookupSetter__''),
      (''isPrototypeOf'', ''isPrototypeOf''),
      (''propertyIsEnumerable'', ''propertyIsEnumerable''),
      (''toString'', ''toString''),
      (''valueOf'', ''valueOf''),
      (''toLocaleString'', ''toLocaleString'')]"

definition Object_prototype :: "string \<Rightarrow> jsval" where
  "Object_prototype key =
     (if key = ''__proto__'' then JObjectPrototype
      else case map_of Object_prototype_functions key of
             Some f \<Rightarrow> JFunction f
           | None \<Rightarrow> JUndefined)"

text \<open>
  Reading \<^verbatim>\<open>obj[key]\<close> on an object literal with string members: the own member if
  there is one, otherwise what the prototype gives.
\<close>

definition get_property :: "(string \<times> string) list \<Rightarrow> string \<Rightarrow> jsval" where
  "get_property obj key =
     (case map_of obj key of
        Some v \<Rightarrow> JString v
      | None \<Rightarrow> Object_prototype key)"

subsection \<open>The city table\<close>

definition cityMap :: "(string \<times> string) list" where
  "cityMap =
     [(''taipei'', zh_taipei), (''Taipei'', zh_taipei),
      (''taoyuan'', zh_taoyuan), (''Taoyuan'', zh_taoyuan),
      (''taichung'', zh_taichung), (''Taichung'', zh_taichung),
      (''tainan'', zh_tainan), (''Tainan'', zh_tainan),
      (''kaohsiung'', zh_kaohsiung), (''Kaohsiung'', zh_kaohsiung),
      (''keelung'', zh_keelung), (''Keelung'', zh_keelung),
      (''hsinchu'', zh_hsinchu), (''Hsinchu'', zh_hsinchu),
      (''newtaipei'', zh_newtaipei), (''NewTaipei'', zh_newtaipei),
      (''hsinchucounty'', zh_hsinchucounty), (''HsinchuCounty'', zh_hsinchucounty),
      (''miaoli'', zh_miaoli), (''Miaoli'', zh_miaoli),
      (''changhua'', zh_changhua), (''Changhua'', zh_changhua),
      (''nantou'', zh_nantou), (''Nantou'', zh_nantou),
      (''yunlin'', zh_yunlin), (''Yunlin'', zh_yunlin),
      (''chiayi'', zh_chiayi), (''Chiayi'', zh_chiayi),
      (''chiayicounty'', zh_chiayicounty), (''ChiayiCounty'', zh_chiayicounty),
      (''pingtung'', zh_pingtung), (''Pingtung'', zh_pingtung),
      (''yilan'', zh_yilan), (''Yilan'', zh_yilan),
      (''hualien'', zh_hualien), (''Hualien'', zh_hualien),
      (''taitung'', zh_taitung), (''Taitung'', zh_taitung),
      (''penghu'', zh_penghu), (''Penghu'', zh_penghu),
      (''kinmen'', zh_kinmen), (''Kinmen'', zh_kinmen),
      (''lienchiang'', zh_lienchiang), (''Lienchiang'', zh_lienchiang)]"

subsection \<open>The upstream document\<close>

text \<open>
  The JSON document of the upstream dataset, as the handlers read it:
  \<^verbatim>\<open>records.location[0].weatherElement[].time[].parameter.parameterName\<close>. Every member
  may be missing (\<open>None\<close>, read as \<^verbatim>\<open>undefined\<close>), and the time lists of different
  elements may differ in length. Members that are present have the JSON type the
  dataset gives them (strings, objects, arrays).
\<close>

record parameter =
  parameterName :: "string option"

record time_window =
  startTime :: "string option"
  endTime :: "string option"
  parameter :: "parameter option"

record weather_element =
  elementName :: "string option"
  time :: "time_window list option"

record location =
  locationName :: "string option"
  weatherElement :: "weather_element list option"

record cwa_records =
  datasetDescription :: "string option"
  location :: "location list option"

record response_data =
  records :: "cwa_records option"

subsection \<open>The outbound call\<close>

record request =
  url :: string
  params_Authorization :: string
  params_locationName :: jsval

text \<open>
  The body of an upstream error response (\<^verbatim>\<open>error.response.data\<close>) is whatever the service
  sent: any JSON value, the raw text when it is not JSON, or nothing. A number stands for
  the value the parser produced, a finite double and so a rational.
\<close>

datatype json =
  JNull | JBool bool | JNumber rat | JStr string | JArray "json list"
  | JObject "(string \<times> json) list"

fun json_truthy :: "json \<Rightarrow> bool" where
  "json_truthy JNull = False"
| "json_truthy (JBool b) = b"
| "json_truthy (JNumber q) = (q \<noteq> 0)"
| "json_truthy (JStr s) = (s \<noteq> [])"
| "json_truthy (JArray xs) = True"
| "json_truthy (JObject members) = True"

record error_response =
  status :: nat
  data :: "json option"

text \<open>
  What \<^verbatim>\<open>await axios.get(...)\<close> does: it yields a response with its \<^verbatim>\<open>data\<close>, or it
  throws an error that carries the upstream response (a status outside 2xx) or
  carries none (network, timeout, DNS).
\<close>

datatype axios_outcome = Resolved response_data | Rejected "error_response option"

datatype exn = TypeError | AxiosError "error_response option"

subsection \<open>The handler's response\<close>

record forecast =
  startTime :: "string option"
  endTime :: "string option"
  weather :: "string option"
  rain :: "string option"
  minTemp :: "string option"
  maxTemp :: "string option"
  comfort :: "string option"
  windSpeed :: "string option"

record weatherData =
  city :: "string option"
  updateTime :: "string option"
  forecasts :: "forecast list"

text \<open>
  The error envelope: \<open>None\<close> is a member the handler does not write. The message is a
  string in every branch but one: the forwarded branch passes on the upstream's
  \<^verbatim>\<open>message\<close> member, whatever JSON value that is.
\<close>

record error_body =
  error :: string
  message :: "json option"
  details :: "json option"

datatype body = SuccessBody weatherData | ErrorBody error_body

record http_response =
  status :: nat
  body :: body

text \<open>
  One run of a handler: the outbound calls it made, in order, and the response it sent;
  \<open>None\<close> when it sent none because an exception left the catch block.
\<close>

record handler_result =
  calls :: "request list"
  response :: "http_response option"

section \<open>The handlers\<close>

subsection \<open>Building the forecast list\<close>

text \<open>
  \<^verbatim>\<open>value.parameterName\<close>, where \<^verbatim>\<open>value = element.time[i].parameter\<close>: reading a member of
  \<^verbatim>\<open>undefined\<close> throws a TypeError.
\<close>

definition read_parameterName :: "parameter option \<Rightarrow> exn + string option" where
  "read_parameterName v = (case v of None \<Rightarrow> Inl TypeError | Some p \<Rightarrow> Inr (parameterName p))"

text \<open>\<^verbatim>\<open>x + "suffix"\<close>: the left operand is converted to a string first.\<close>

definition plus_string :: "string option \<Rightarrow> string \<Rightarrow> string" where
  "plus_string x suffix = ToString (js x) @ suffix"

text \<open>
  The callback of \<^verbatim>\<open>weatherElements.forEach\<close> (lines 68 to 90 and 222 to 244) at loop
  index \<open>i\<close>. \<^verbatim>\<open>element.time[i]\<close> is \<^verbatim>\<open>undefined\<close> when the list is too short, and
  reading \<^verbatim>\<open>.parameter\<close> from it throws; a missing \<^verbatim>\<open>element.time\<close> throws as well.
  Element names outside the switch leave the forecast as it is.
\<close>

definition callback :: "nat \<Rightarrow> weather_element \<Rightarrow> forecast \<Rightarrow> exn + forecast" where
  "callback i element forecast =
     (case time element of
        None \<Rightarrow> Inl TypeError
      | Some ts \<Rightarrow>
          if length ts \<le> i then Inl TypeError
          else
            let v = parameter (ts ! i) in
            if elementName element = Some ''Wx'' then
              (case read_parameterName v of Inl e \<Rightarrow> Inl e
               | Inr n \<Rightarrow> Inr (forecast\<lparr>weather := n\<rparr>))
            else if elementName element = Some ''PoP'' then
              (case read_parameterName v of Inl e \<Rightarrow> Inl e
               | Inr n \<Rightarrow> Inr (forecast\<lparr>rain := Some (plus_string n ''%'')\<rparr>))
            else if elementName element = Some ''MinT'' then
              (case read_parameterName v of Inl e \<Rightarrow> Inl e
               | Inr n \<Rightarrow> Inr (forecast\<lparr>minTemp := Some (plus_string n degC)\<rparr>))
            else if elementName element = Some ''MaxT'' then
              (case read_parameterName v of Inl e \<Rightarrow> Inl e
               | Inr n \<Rightarrow> Inr (forecast\<lparr>maxTemp := Some (plus_string n degC)\<rparr>))
            else if elementName element = Some ''CI'' then
              (case read_parameterName v of Inl e \<Rightarrow> Inl e
               | Inr n \<Rightarrow> Inr (forecast\<lparr>comfort := n\<rparr>))
            else if elementName element = Some ''WS'' then
              (case read_parameterName v of Inl e \<Rightarrow> Inl e
               | Inr n \<Rightarrow> Inr (forecast\<lparr>windSpeed := n\<rparr>))
            else Inr forecast)"

fun forEach :: "nat \<Rightarrow> weather_element list \<Rightarrow> forecast \<Rightarrow> exn + forecast" where
  "forEach i [] forecast = Inr forecast"
| "forEach i (element # rest) forecast =
     (case callback i element forecast of
        Inl e \<Rightarrow> Inl e
      | Inr forecast' \<Rightarrow> forEach i rest forecast')"

text \<open>The object literal that starts each forecast (lines 57 to 66 and 212 to 221).\<close>

definition new_forecast :: "time_window \<Rightarrow> forecast" where
  "new_forecast w =
     \<lparr>startTime = time_window.startTime w,
      endTime = time_window.endTime w,
      weather = Some '''', rain = Some '''', minTemp = Some '''',
      maxTemp = Some '''', comfort = Some '''', windSpeed = Some ''''\<rparr>"

text \<open>
  The \<^verbatim>\<open>for\<close> loop (lines 56 to 93 and 211 to 246). \<open>time0\<close> is
  \<^verbatim>\<open>weatherElements[0].time\<close> and \<open>timeCount\<close> its length, so \<open>time0 ! i\<close> is in range.
\<close>

function forecast_loop ::
  "weather_element list \<Rightarrow> time_window list \<Rightarrow> nat \<Rightarrow> nat \<Rightarrow> forecast list \<Rightarrow> exn + forecast list"
where
  "forecast_loop weatherElements time0 timeCount i acc =
     (if i < timeCount then
        (case forEach i weatherElements (new_forecast (time0 ! i)) of
           Inl e \<Rightarrow> Inl e
         | Inr forecast \<Rightarrow> forecast_loop weatherElements time0 timeCount (Suc i) (acc @ [forecast]))
      else Inr acc)"
  by pat_completeness auto
termination
  by (relation "measure (\<lambda>(weatherElements, time0, timeCount, i, acc). timeCount - i)") auto

declare forecast_loop.simps [simp del]

text \<open>
  Lines 45 to 93 and 204 to 246: \<^verbatim>\<open>weatherElements[0].time.length\<close> throws when the
  element list is missing or empty or when the first element has no \<^verbatim>\<open>time\<close>.
\<close>

definition build_weatherData :: "cwa_records \<Rightarrow> location \<Rightarrow> exn + weatherData" where
  "build_weatherData recs locationData =
     (case weatherElement locationData of
        None \<Rightarrow> Inl TypeError
      | Some weatherElements \<Rightarrow>
          (case weatherElements of
             [] \<Rightarrow> Inl TypeError
           | first # _ \<Rightarrow>
               (case time first of
                  None \<Rightarrow> Inl TypeError
                | Some time0 \<Rightarrow>
                    (case forecast_loop weatherElements time0 (length time0) 0 [] of
                       Inl e \<Rightarrow> Inl e
                     | Inr fs \<Rightarrow>
                         Inr \<lparr>city = locationName locationData,
                              updateTime = datasetDescription recs,
                              forecasts = fs\<rparr>))))"

subsection \<open>The catch block\<close>

text \<open>
  \<^verbatim>\<open>error.response.data.message\<close> (lines 106 and 253): reading a member of \<^verbatim>\<open>undefined\<close> or
  \<^verbatim>\<open>null\<close> throws; an object gives its member of that name (the last one written, as the
  parser keeps it) or \<^verbatim>\<open>undefined\<close>; a string, number, boolean or array has no member of
  that name.
\<close>

definition read_message :: "json option \<Rightarrow> exn + json option" where
  "read_message d =
     (case d of
        None \<Rightarrow> Inl TypeError
      | Some JNull \<Rightarrow> Inl TypeError
      | Some (JObject members) \<Rightarrow> Inr (map_of (rev members) ''message'')
      | Some _ \<Rightarrow> Inr None)"

text \<open>\<^verbatim>\<open>a || b\<close> with a string \<open>b\<close>: \<open>a\<close> when it is truthy, \<open>b\<close> otherwise.\<close>

definition or_else :: "json option \<Rightarrow> string \<Rightarrow> json" where
  "or_else a b = (case a of None \<Rightarrow> JStr b | Some v \<Rightarrow> if json_truthy v then v else JStr b)"

text \<open>
  The catch block, lines 99 to 116 and 248 to 261. When the read of the upstream
  message throws, the exception leaves the block and no response is sent.
\<close>

definition catch :: "exn \<Rightarrow> http_response option" where
  "catch e =
     (case e of
        AxiosError (Some r) \<Rightarrow>
          (case read_message (data r) of
             Inl thrown \<Rightarrow> None
           | Inr m \<Rightarrow>
               Some \<lparr>status = error_response.status r,
                     body = ErrorBody \<lparr>error = err_cwa_api,
                                      message = Some (or_else m msg_cannot_get_weather),
                                      details = data r\<rparr>\<rparr>)
      | _ \<Rightarrow>
          Some \<lparr>status = 500,
                body = ErrorBody \<lparr>error = err_server,
                                 message = Some (JStr msg_retry_later),
                                 details = None\<rparr>\<rparr>)"

definition config_fault :: http_response where
  "config_fault =
     \<lparr>status = 500,
      body = ErrorBody \<lparr>error = err_server_config, message = Some (JStr msg_set_api_key),
                        details = None\<rparr>\<rparr>"

text \<open>
  The part of both handlers after the call resolved: \<^verbatim>\<open>response.data.records.location[0]\<close>
  throws when \<^verbatim>\<open>records\<close> or \<^verbatim>\<open>location\<close> is missing; an empty list gives \<^verbatim>\<open>undefined\<close>
  and the 404 response with the given message.
\<close>

definition after_response :: "string \<Rightarrow> response_data \<Rightarrow> exn + http_response" where
  "after_response no_data_message d =
     (case records d of
        None \<Rightarrow> Inl TypeError
      | Some recs \<Rightarrow>
          (case location recs of
             None \<Rightarrow> Inl TypeError
           | Some [] \<Rightarrow>
               Inr \<lparr>status = 404,
                    body = ErrorBody \<lparr>error = err_no_data,
                                     message = Some (JStr no_data_message),
                                     details = None\<rparr>\<rparr>
           | Some (locationData # _) \<Rightarrow>
               (case build_weatherData recs locationData of
                  Inl e \<Rightarrow> Inl e
                | Inr weatherData \<Rightarrow> Inr \<lparr>status = 200, body = SuccessBody weatherData\<rparr>)))"

definition try_request ::
  "(request \<Rightarrow> axios_outcome) \<Rightarrow> request \<Rightarrow> string \<Rightarrow> http_response option" where
  "try_request axios_get req no_data_message =
     (case axios_get req of
        Rejected r \<Rightarrow> catch (AxiosError r)
      | Resolved d \<Rightarrow>
          (case after_response no_data_message d of
             Inl e \<Rightarrow> catch e
           | Inr res \<Rightarrow> Some res))"

subsection \<open>getKaohsiungWeather and getWeatherByCity\<close>

text \<open>
  \<open>CWA_API_KEY\<close> is \<^verbatim>\<open>process.env.CWA_API_KEY\<close> (a string, or \<open>None\<close> for \<^verbatim>\<open>undefined\<close>);
  \<open>axios_get\<close> stands for the upstream service: it gives the outcome of each request;
  \<open>lower_non_ascii\<close> is the engine's lower-casing of strings that are not ASCII.
\<close>

definition getKaohsiungWeather ::
  "string option \<Rightarrow> (request \<Rightarrow> axios_outcome) \<Rightarrow> handler_result" where
  "getKaohsiungWeather CWA_API_KEY axios_get =
     (if \<not> truthy (js CWA_API_KEY) then \<lparr>calls = [], response = Some config_fault\<rparr>
      else
        let req = \<lparr>url = api_url,
                   params_Authorization = ToString (js CWA_API_KEY),
                   params_locationName = JString zh_taoyuan\<rparr>
        in \<lparr>calls = [req], response = try_request axios_get req msg_no_taoyuan_data\<rparr>)"

definition getWeatherByCity ::
  "string option \<Rightarrow> (request \<Rightarrow> axios_outcome) \<Rightarrow> (string \<Rightarrow> string) \<Rightarrow> string \<Rightarrow>
     handler_result" where
  "getWeatherByCity CWA_API_KEY axios_get lower_non_ascii req_params_city =
     (if \<not> truthy (js CWA_API_KEY) then \<lparr>calls = [], response = Some config_fault\<rparr>
      else
        let cityParam = toLowerCase lower_non_ascii req_params_city;
            cwaCity = get_property cityMap cityParam
        in
          if \<not> truthy cwaCity then
            \<lparr>calls = [],
             response = Some \<lparr>status = 400,
                              body = ErrorBody \<lparr>error = err_unsupported_city, message = None,
                                               details = None\<rparr>\<rparr>\<rparr>
          else
            let req = \<lparr>url = api_url,
                       params_Authorization = ToString (js CWA_API_KEY),
                       params_locationName = cwaCity\<rparr>
            in \<lparr>calls = [req],
                response = try_request axios_get req
                             (msg_cannot_get @ ToString cwaCity @ msg_weather_data)\<rparr>)"

section \<open>Notions used by the properties\<close>

text \<open>The element names the switch of the callback knows.\<close>

definition enumeration :: "string list" where
  "enumeration = [''Wx'', ''PoP'', ''MinT'', ''MaxT'', ''CI'', ''WS'']"

text \<open>
  An element is readable at index \<open>i\<close> when its time list reaches \<open>i\<close> and, if its name
  is one of the enumeration, the window at \<open>i\<close> carries a \<^verbatim>\<open>parameter\<close> object. A list
  of elements is aligned up to \<open>n\<close> when every element is readable at every index
  below \<open>n\<close>.
\<close>

definition window_ok :: "nat \<Rightarrow> weather_element \<Rightarrow> bool" where
  "window_ok i e =
     (case time e of
        None \<Rightarrow> False
      | Some ts \<Rightarrow>
          i < length ts \<and>
          (elementName e \<in> set (map Some enumeration) \<longrightarrow> parameter (ts ! i) \<noteq> None))"

definition aligned :: "weather_element list \<Rightarrow> nat \<Rightarrow> bool" where
  "aligned es n = list_all (\<lambda>i. list_all (window_ok i) es) [0..<n]"

text \<open>An upstream service that answers every request with the same outcome.\<close>

definition upstream_always :: "axios_outcome \<Rightarrow> request \<Rightarrow> axios_outcome" where
  "upstream_always outcome req = outcome"

text \<open>Sample documents: two time windows, with named elements.\<close>

definition sample_window :: "string \<Rightarrow> string \<Rightarrow> string \<Rightarrow> time_window" where
  "sample_window s e v =
     \<lparr>time_window.startTime = Some s, time_window.endTime = Some e,
      parameter = Some \<lparr>parameterName = Some v\<rparr>\<rparr>"

definition sample_element :: "string \<Rightarrow> string \<Rightarrow> string \<Rightarrow> weather_element" where
  "sample_element name v0 v1 =
     \<lparr>elementName = Some name,
      time = Some [sample_window ''2024-01-01 06:00:00'' ''2024-01-01 18:00:00'' v0,
                   sample_window ''2024-01-01 18:00:00'' ''2024-01-02 06:00:00'' v1]\<rparr>"

definition short_element :: "string \<Rightarrow> string \<Rightarrow> weather_element" where
  "short_element name v0 =
     \<lparr>elementName = Some name,
      time = Some [sample_window ''2024-01-01 06:00:00'' ''2024-01-01 18:00:00'' v0]\<rparr>"

definition sample_document :: "weather_element list \<Rightarrow> response_data" where
  "sample_document es =
     \<lparr>records = Some \<lparr>datasetDescription = Some ''forecast'',
                       location = Some [\<lparr>locationName = Some zh_taipei,
                                          weatherElement = Some es\<rparr>]\<rparr>\<rparr>"

definition six_elements :: "weather_element list" where
  "six_elements =
     [sample_element ''Wx'' ''sunny'' ''cloudy'',
      sample_element ''PoP'' ''10'' ''30'',
      sample_element ''MinT'' ''18'' ''16'',
      sample_element ''CI'' ''comfortable'' ''cool'',
      sample_element ''MaxT'' ''25'' ''21'',
      sample_element ''WS'' ''light'' ''breezy'']"

definition elements_without_CI :: "weather_element list" where
  "elements_without_CI =
     [sample_element ''Wx'' ''sunny'' ''cloudy'',
      sample_element ''PoP'' ''10'' ''30'',
      sample_element ''MinT'' ''18'' ''16'',
      sample_element ''MaxT'' ''25'' ''21'',
      sample_element ''WS'' ''light'' ''breezy'']"


definition ragged_without_CI :: "weather_element list" where
  "ragged_without_CI = [sample_element ''Wx'' ''sunny'' ''cloudy'', short_element ''MinT'' ''18'']"


definition document_empty_location :: response_data where
  "document_empty_location =
     \<lparr>records = Some \<lparr>datasetDescription = Some ''forecast'', location = Some []\<rparr>\<rparr>"

text \<open>The request that \<open>getWeatherByCity\<close> sends for a key and a looked-up city value.\<close>

definition request_for :: "string \<Rightarrow> jsval \<Rightarrow> request" where
  "request_for key cwaCity =
     \<lparr>url = api_url, params_Authorization = key, params_locationName = cwaCity\<rparr>"

text \<open>An upstream error response with the given status and body.\<close>

definition upstream_failure :: "nat \<Rightarrow> json \<Rightarrow> error_response" where
  "upstream_failure s b = \<lparr>error_response.status = s, data = Some b\<rparr>"

text \<open>The values that \<^verbatim>\<open>||\<close> replaces by its right operand.\<close>

definition falsy_values :: "json list" where
  "falsy_values = [JNull, JBool False, JNumber 0, JStr []]"

text \<open>
  The \<^verbatim>\<open>message\<close> member of a body: the last member of that name when the body is an
  object, and none otherwise.
\<close>

definition message_member :: "json \<Rightarrow> json option" where
  "message_member b =
     (case b of JObject members \<Rightarrow> map_of (rev members) ''message'' | _ \<Rightarrow> None)"

text \<open>
  A stand-in for the engine's lower-casing of strings that are not ASCII, for runs on
  ASCII tokens, where it is never consulted.
\<close>

definition lower_unchanged :: "string \<Rightarrow> string" where
  "lower_unchanged s = s"

text \<open>
  Two tokens agree up to letter case when they have the same length and, at each position,
  the same character or the upper-case and lower-case form of one ASCII letter.
\<close>

definition letter_cases :: "(char \<times> char) list" where
  "letter_cases = zip ''ABCDEFGHIJKLMNOPQRSTUVWXYZ'' ''abcdefghijklmnopqrstuvwxyz''"

definition same_letter :: "char \<Rightarrow> char \<Rightarrow> bool" where
  "same_letter a b = (a = b \<or> (a, b) \<in> set letter_cases \<or> (b, a) \<in> set letter_cases)"

definition same_ignoring_case :: "string \<Rightarrow> string \<Rightarrow> bool" where
  "same_ignoring_case s t = list_all2 same_letter s t"

text \<open>A document in which the upstream names Kaohsiung City as the location.\<close>

definition kaohsiung_document :: response_data where
  "kaohsiung_document =
     \<lparr>records = Some \<lparr>datasetDescription = Some ''forecast'',
                       location = Some [\<lparr>locationName = Some zh_kaohsiung,
                                          weatherElement = Some six_elements\<rparr>]\<rparr>\<rparr>"

text \<open>An element list with a repeated name and with elements that have no name.\<close>

definition unnamed_element :: weather_element where
  "unnamed_element =
     \<lparr>elementName = None,
      time = Some [sample_window ''2024-01-01 06:00:00'' ''2024-01-01 18:00:00'' ''x'',
                   sample_window ''2024-01-01 18:00:00'' ''2024-01-02 06:00:00'' ''y'']\<rparr>"


text \<open>
  A document in which the upstream names Taoyuan City as the location, and the token
  made of U+212A (the Kelvin sign) followed by \<^verbatim>\<open>eelung\<close>.
\<close>

definition taoyuan_document :: response_data where
  "taoyuan_document =
     \<lparr>records = Some \<lparr>datasetDescription = Some ''forecast'',
                       location = Some [\<lparr>locationName = Some zh_taoyuan,
                                          weatherElement = Some six_elements\<rparr>]\<rparr>\<rparr>"

definition kelvin_eelung :: string where
  "kelvin_eelung = [CHR 0xE2, CHR 0x84, CHR 0xAA] @ ''eelung''"

section \<open>Properties of the forecast loop\<close>

lemma callback_succeeds: "window_ok i e \<Longrightarrow> \<exists>f'. callback i e f = Inr f'"
  by (auto simp: window_ok_def callback_def read_parameterName_def enumeration_def Let_def
           split: option.splits)

lemma callback_keeps:
  assumes "callback i e f = Inr f'"
  shows "forecast.startTime f' = forecast.startTime f"
    and "forecast.endTime f' = forecast.endTime f"
    and "elementName e \<noteq> Some ''Wx'' \<Longrightarrow> weather f' = weather f"
    and "elementName e \<noteq> Some ''PoP'' \<Longrightarrow> rain f' = rain f"
    and "elementName e \<noteq> Some ''MinT'' \<Longrightarrow> minTemp f' = minTemp f"
    and "elementName e \<noteq> Some ''MaxT'' \<Longrightarrow> maxTemp f' = maxTemp f"
    and "elementName e \<noteq> Some ''CI'' \<Longrightarrow> comfort f' = comfort f"
    and "elementName e \<noteq> Some ''WS'' \<Longrightarrow> windSpeed f' = windSpeed f"
  using assms
  by (auto simp: callback_def read_parameterName_def Let_def split: option.splits if_splits)


lemma forEach_Cons_Inr:
  assumes "forEach i (e # es) f = Inr f'"
  obtains f1 where "callback i e f = Inr f1" and "forEach i es f1 = Inr f'"
  using assms by (cases "callback i e f") auto

lemma forEach_succeeds: "list_all (window_ok i) es \<Longrightarrow> \<exists>f'. forEach i es f = Inr f'"
proof (induction es arbitrary: f)
  case Nil
  show ?case by simp
next
  case (Cons e es)
  then obtain f1 where "callback i e f = Inr f1"
    using callback_succeeds [of i e f] by auto
  with Cons show ?case by simp
qed

text \<open>A field that no callback of the list changes is the same after the whole pass.\<close>

lemma forEach_keeps_gen:
  assumes "forEach i es f = Inr f'"
    and "\<And>x h h'. x \<in> set es \<Longrightarrow> callback i x h = Inr h' \<Longrightarrow> g h' = g h"
  shows "g f' = g f"
  using assms
proof (induction es arbitrary: f)
  case Nil
  then show ?case by simp
next
  case (Cons x xs)
  from Cons.prems(1) obtain f1 where f1: "callback i x f = Inr f1" "forEach i xs f1 = Inr f'"
    by (rule forEach_Cons_Inr)
  have "g f' = g f1"
    using f1(2) Cons.prems(2) by (intro Cons.IH) auto
  moreover have "g f1 = g f"
    using f1(1) Cons.prems(2) [of x f f1] by simp
  ultimately show ?case by simp
qed

lemma forEach_keeps:
  assumes "forEach i es f = Inr f'"
  shows "forecast.startTime f' = forecast.startTime f"
    and "forecast.endTime f' = forecast.endTime f"
    and "Some ''Wx'' \<notin> elementName ` set es \<Longrightarrow> weather f' = weather f"
    and "Some ''PoP'' \<notin> elementName ` set es \<Longrightarrow> rain f' = rain f"
    and "Some ''MinT'' \<notin> elementName ` set es \<Longrightarrow> minTemp f' = minTemp f"
    and "Some ''MaxT'' \<notin> elementName ` set es \<Longrightarrow> maxTemp f' = maxTemp f"
    and "Some ''CI'' \<notin> elementName ` set es \<Longrightarrow> comfort f' = comfort f"
    and "Some ''WS'' \<notin> elementName ` set es \<Longrightarrow> windSpeed f' = windSpeed f"
proof -
  show "forecast.startTime f' = forecast.startTime f"
    by (rule forEach_keeps_gen [OF assms]) (rule callback_keeps(1))
  show "forecast.endTime f' = forecast.endTime f"
    by (rule forEach_keeps_gen [OF assms]) (rule callback_keeps(2))
  show "weather f' = weather f" if "Some ''Wx'' \<notin> elementName ` set es"
    by (rule forEach_keeps_gen [OF assms]) (use that in \<open>force intro: callback_keeps(3)\<close>)
  show "rain f' = rain f" if "Some ''PoP'' \<notin> elementName ` set es"
    by (rule forEach_keeps_gen [OF assms]) (use that in \<open>force intro: callback_keeps(4)\<close>)
  show "minTemp f' = minTemp f" if "Some ''MinT'' \<notin> elementName ` set es"
    by (rule forEach_keeps_gen [OF assms]) (use that in \<open>force intro: callback_keeps(5)\<close>)
  show "maxTemp f' = maxTemp f" if "Some ''MaxT'' \<notin> elementName ` set es"
    by (rule forEach_keeps_gen [OF assms]) (use that in \<open>force intro: callback_keeps(6)\<close>)
  show "comfort f' = comfort f" if "Some ''CI'' \<notin> elementName ` set es"
    by (rule forEach_keeps_gen [OF assms]) (use that in \<open>force intro: callback_keeps(7)\<close>)
  show "windSpeed f' = windSpeed f" if "Some ''WS'' \<notin> elementName ` set es"
    by (rule forEach_keeps_gen [OF assms]) (use that in \<open>force intro: callback_keeps(8)\<close>)
qed



lemma aligned_iff: "aligned es n \<longleftrightarrow> (\<forall>j<n. list_all (window_ok j) es)"
  by (auto simp: aligned_def list_all_iff)

text \<open>
  On an aligned list the loop runs to its end: one entry per index, each the result
  of the pass over the elements at that index.
\<close>

lemma forecast_loop_aligned:
  assumes "aligned es n" and "i \<le> n"
  shows "\<exists>fs. forecast_loop es t0 n i acc = Inr (acc @ fs) \<and> length fs = n - i \<and>
              (\<forall>j<n - i. forEach (i + j) es (new_forecast (t0 ! (i + j))) = Inr (fs ! j))"
  using assms(2)
proof (induction "n - i" arbitrary: i acc)
  case 0
  then have "\<not> i < n" by simp
  then have "forecast_loop es t0 n i acc = Inr acc"
    by (subst forecast_loop.simps) simp
  with 0 show ?case by simp
next
  case (Suc k)
  then have lt: "i < n" by simp
  with assms(1) have "list_all (window_ok i) es"
    by (simp add: aligned_iff)
  then obtain f where f: "forEach i es (new_forecast (t0 ! i)) = Inr f"
    using forEach_succeeds by blast
  have step: "forecast_loop es t0 n i acc = forecast_loop es t0 n (Suc i) (acc @ [f])"
    using lt f by (subst forecast_loop.simps) simp
  from Suc.hyps(2) lt have "k = n - Suc i" and "Suc i \<le> n" by simp_all
  from Suc.hyps(1) [OF this, of "acc @ [f]"]
  obtain fs where fs: "forecast_loop es t0 n (Suc i) (acc @ [f]) = Inr ((acc @ [f]) @ fs)"
      "length fs = n - Suc i"
      "\<forall>j<n - Suc i. forEach (Suc i + j) es (new_forecast (t0 ! (Suc i + j))) = Inr (fs ! j)"
    by blast
  have "forecast_loop es t0 n i acc = Inr (acc @ f # fs)"
    using step fs(1) by simp
  moreover have "length (f # fs) = n - i"
    using fs(2) lt by simp
  moreover have "forEach (i + j) es (new_forecast (t0 ! (i + j))) = Inr ((f # fs) ! j)"
    if "j < n - i" for j
  proof (cases j)
    case 0
    with f show ?thesis by simp
  next
    case (Suc j')
    with that have "j' < n - Suc i" by simp
    with fs(3) Suc show ?thesis by simp
  qed
  ultimately show ?case by blast
qed

lemma build_weatherData_aligned:
  assumes "weatherElement loc = Some (first # rest)" and "time first = Some time0"
    and "aligned (first # rest) (length time0)"
  shows "\<exists>fs. build_weatherData recs loc =
                 Inr \<lparr>city = locationName loc, updateTime = datasetDescription recs,
                      forecasts = fs\<rparr> \<and>
              length fs = length time0 \<and>
              (\<forall>i<length time0.
                 forEach i (first # rest) (new_forecast (time0 ! i)) = Inr (fs ! i))"
proof -
  from forecast_loop_aligned [OF assms(3), of 0 time0 "[]"]
  obtain fs where "forecast_loop (first # rest) time0 (length time0) 0 [] = Inr fs"
      "length fs = length time0"
      "\<forall>i<length time0. forEach i (first # rest) (new_forecast (time0 ! i)) = Inr (fs ! i)"
    by auto
  with assms(1,2) show ?thesis
    by (simp add: build_weatherData_def)
qed

section \<open>Properties of the handlers\<close>

text \<open>
  Every outbound call of \<open>getWeatherByCity\<close> is its only call; it carries the value
  looked up in the city table, and the response is decided by its outcome.
\<close>

lemma getWeatherByCity_call:
  assumes "c \<in> set (calls (getWeatherByCity k g lc t))"
  shows "calls (getWeatherByCity k g lc t) = [c]"
    and "response (getWeatherByCity k g lc t) =
           try_request g c (msg_cannot_get @ ToString (params_locationName c) @ msg_weather_data)"
    and "params_locationName c = get_property cityMap (toLowerCase lc t)"
    and "truthy (js k)" and "truthy (get_property cityMap (toLowerCase lc t))"
  using assms
  by (auto simp: getWeatherByCity_def Let_def split: if_splits)

lemma getWeatherByCity_calls:
  "calls (getWeatherByCity k g lc t) =
     (if truthy (js k) \<and> truthy (get_property cityMap (toLowerCase lc t))
      then [\<lparr>url = api_url, params_Authorization = ToString (js k),
             params_locationName = get_property cityMap (toLowerCase lc t)\<rparr>]
      else [])"
  by (simp add: getWeatherByCity_def Let_def)

lemma getKaohsiungWeather_call:
  assumes "c \<in> set (calls (getKaohsiungWeather k g))"
  shows "calls (getKaohsiungWeather k g) = [c]"
    and "response (getKaohsiungWeather k g) = try_request g c msg_no_taoyuan_data"
    and "params_locationName c = JString zh_taoyuan"
  using assms
  by (auto simp: getKaohsiungWeather_def Let_def split: if_splits)

lemma try_request_success:
  assumes "g c = Resolved d" and "records d = Some recs" and "location recs = Some (loc # locs)"
    and "build_weatherData recs loc = Inr w"
  shows "try_request g c m = Some \<lparr>status = 200, body = SuccessBody w\<rparr>"
  using assms by (simp add: try_request_def after_response_def)

lemma try_request_no_data:
  assumes "g c = Resolved d" and "records d = Some recs" and "location recs = Some []"
  shows "try_request g c m =
           Some \<lparr>status = 404,
                 body = ErrorBody \<lparr>error = err_no_data, message = Some (JStr m),
                                  details = None\<rparr>\<rparr>"
  using assms by (simp add: try_request_def after_response_def)


text \<open>
  A token whose lower-case form is neither a key of the city table nor the name of a
  member of \<^verbatim>\<open>Object.prototype\<close> is answered with 400, and no outbound call is made.
\<close>

lemma getWeatherByCity_unsupported_city:
  assumes "truthy (js k)" and "map_of cityMap (toLowerCase lc t) = None"
    and "Object_prototype (toLowerCase lc t) = JUndefined"
  shows "getWeatherByCity k g lc t =
           \<lparr>calls = [],
            response = Some \<lparr>status = 400,
                             body = ErrorBody \<lparr>error = err_unsupported_city, message = None,
                                              details = None\<rparr>\<rparr>\<rparr>"
  using assms by (simp add: getWeatherByCity_def get_property_def Let_def)

lemma json_truthy_iff: "json_truthy v \<longleftrightarrow> v \<notin> set falsy_values"
  by (cases v) (auto simp: falsy_values_def)

lemma read_message_body: "b \<noteq> JNull \<Longrightarrow> read_message (Some b) = Inr (message_member b)"
  by (cases b) (simp_all add: read_message_def message_member_def)

text \<open>
  When the upstream error response has no body, or the body \<^verbatim>\<open>null\<close>, the read of its
  message throws inside the catch block and the handler sends no response.
\<close>

lemma getWeatherByCity_error_without_body:
  assumes "c \<in> set (calls (getWeatherByCity k g lc t))" and "g c = Rejected (Some r)"
    and "data r = None \<or> data r = Some JNull"
  shows "response (getWeatherByCity k g lc t) = None"
  using getWeatherByCity_call(2) [OF assms(1)] assms(2,3)
  by (auto simp: try_request_def catch_def read_message_def)

subsection \<open>Lower-casing and the city table\<close>

lemma lower_char_table:
  "map lower_char ''ABCDEFGHIJKLMNOPQRSTUVWXYZ'' = ''abcdefghijklmnopqrstuvwxyz''"
  "map lower_char ''abcdefghijklmnopqrstuvwxyz'' = ''abcdefghijklmnopqrstuvwxyz''"
  "map lower_char ''_'' = ''_''"
  by (simp_all add: lower_char_def)

lemmas lower_char_simps = lower_char_table [simplified]

text \<open>
  Characters that agree up to letter case have the same lower-case form, and one is
  ASCII when the other is.
\<close>

lemma same_letter_lower: "same_letter a b \<Longrightarrow> lower_char a = lower_char b"
  unfolding same_letter_def letter_cases_def
  by (auto simp: lower_char_simps)

lemma same_letter_ascii: "same_letter a b \<Longrightarrow> digit7 a = digit7 b"
  unfolding same_letter_def letter_cases_def
  by auto

lemma same_ignoring_case_lower:
  "same_ignoring_case s t \<Longrightarrow> map lower_char s = map lower_char t \<and> is_ascii s = is_ascii t"
  unfolding same_ignoring_case_def is_ascii_def
  by (induction s t rule: list_all2_induct) (auto dest: same_letter_lower same_letter_ascii)

lemma toLowerCase_same:
  assumes "same_ignoring_case s t" and "is_ascii t"
  shows "toLowerCase lc s = map lower_char t"
  using same_ignoring_case_lower [OF assms(1)] assms(2) by (simp add: toLowerCase_def)

text \<open>
  The city table: no key is written twice in the object literal, every key is ASCII,
  the lower-case form of every key, in either spelling, leads to the value the table
  gives the key, and that value is a non-empty string.
\<close>

lemmas zh_defs =
  zh_taipei_def zh_taoyuan_def zh_taichung_def zh_tainan_def zh_kaohsiung_def zh_keelung_def
  zh_hsinchu_def zh_newtaipei_def zh_hsinchucounty_def zh_miaoli_def zh_changhua_def
  zh_nantou_def zh_yunlin_def zh_chiayi_def zh_chiayicounty_def zh_pingtung_def zh_yilan_def
  zh_hualien_def zh_taitung_def zh_penghu_def zh_kinmen_def zh_lienchiang_def

lemma cityMap_keys_distinct: "distinct (map fst cityMap)"
  unfolding cityMap_def by simp

lemma cityMap_keys_ascii: "\<forall>(key, name) \<in> set cityMap. is_ascii key"
  unfolding cityMap_def is_ascii_def by simp

lemma cityMap_lower_keys:
  "\<forall>(key, name) \<in> set cityMap. get_property cityMap (map lower_char key) = JString name"
  unfolding cityMap_def get_property_def
  by (simp add: lower_char_simps)

lemma cityMap_names_nonempty: "\<forall>(key, name) \<in> set cityMap. name \<noteq> []"
  unfolding cityMap_def by (simp add: zh_defs)

text \<open>
  A token that is not ASCII is lower-cased by the engine. With an engine that maps
  the Kelvin sign to \<^verbatim>\<open>k\<close>, as JavaScript engines do, the token U+212A \<^verbatim>\<open>eelung\<close> resolves to
  Keelung City.
\<close>

lemma getWeatherByCity_kelvin_sign:
  assumes "lc kelvin_eelung = ''keelung''"
  shows "calls (getWeatherByCity (Some ''key'') g lc kelvin_eelung) =
           [request_for ''key'' (JString zh_keelung)]"
proof -
  have "\<not> is_ascii kelvin_eelung"
    by (simp add: is_ascii_def kelvin_eelung_def)
  with assms have "toLowerCase lc kelvin_eelung = ''keelung''"
    by (simp add: toLowerCase_def)
  moreover have "get_property cityMap ''keelung'' = JString zh_keelung"
    by (simp add: get_property_def cityMap_def)
  moreover have "zh_keelung \<noteq> []"
    by (simp add: zh_keelung_def)
  ultimately show ?thesis
    by (simp add: getWeatherByCity_calls request_for_def)
qed

subsection \<open>Evaluation on the samples\<close>

lemma lookup_Taipei:
  "get_property cityMap (toLowerCase lc ''Taipei'') = JString zh_taipei"
  by (simp add: toLowerCase_def is_ascii_def lower_char_simps get_property_def cityMap_def)

lemma lookup_taipei:
  "get_property cityMap (toLowerCase lc ''taipei'') = JString zh_taipei"
  by (simp add: toLowerCase_def is_ascii_def lower_char_simps get_property_def cityMap_def)

lemma zh_taipei_nonempty: "zh_taipei \<noteq> []"
  by (simp add: zh_taipei_def)

lemma calls_Taipei:
  "calls (getWeatherByCity (Some ''key'') g lc ''Taipei'') =
     [request_for ''key'' (JString zh_taipei)]"
  by (simp add: getWeatherByCity_calls lookup_Taipei zh_taipei_nonempty request_for_def)

lemma calls_taipei:
  "calls (getWeatherByCity (Some ''key'') g lc ''taipei'') =
     [request_for ''key'' (JString zh_taipei)]"
  by (simp add: getWeatherByCity_calls lookup_taipei zh_taipei_nonempty request_for_def)

lemma sample_element_simps:
  "elementName (sample_element name v0 v1) = Some name"
  "time (sample_element name v0 v1) =
     Some [sample_window ''2024-01-01 06:00:00'' ''2024-01-01 18:00:00'' v0,
           sample_window ''2024-01-01 18:00:00'' ''2024-01-02 06:00:00'' v1]"
  "elementName (short_element name v0) = Some name"
  "time (short_element name v0) =
     Some [sample_window ''2024-01-01 06:00:00'' ''2024-01-01 18:00:00'' v0]"
  "time_window.startTime (sample_window s e v) = Some s"
  "time_window.endTime (sample_window s e v) = Some e"
  "parameter (sample_window s e v) = Some \<lparr>parameterName = Some v\<rparr>"
  "elementName unnamed_element = None"
  "time unnamed_element =
     Some [sample_window ''2024-01-01 06:00:00'' ''2024-01-01 18:00:00'' ''x'',
           sample_window ''2024-01-01 18:00:00'' ''2024-01-02 06:00:00'' ''y'']"
  by (simp_all add: sample_element_def short_element_def sample_window_def unnamed_element_def)

lemma window_ok_sample:
  "window_ok 0 (sample_element name v0 v1)" "window_ok (Suc 0) (sample_element name v0 v1)"
  "window_ok 0 unnamed_element" "window_ok (Suc 0) unnamed_element"
  by (simp_all add: window_ok_def sample_element_simps)

lemma aligned_six_elements: "aligned six_elements 2"
  by (simp add: aligned_iff six_elements_def window_ok_sample less_Suc_eq numeral_2_eq_2)


lemma aligned_elements_without_CI: "aligned elements_without_CI 2"
  by (simp add: aligned_iff elements_without_CI_def window_ok_sample less_Suc_eq numeral_2_eq_2)

section \<open>The claims\<close>




text \<open>
  C2 (as amended). When the call resolves with a document whose first location entry has
  weather elements that are aligned up to the length of the first element's time list,
  the request succeeds, and for every name of the enumeration that no element of the
  list carries, the field of that name is the empty string in every forecast entry. In
  particular a document without any \<^verbatim>\<open>CI\<close> element has \<open>comfort\<close> empty at every
  index.
\<close>

theorem getWeatherByCity_absent_element_empty:
  assumes call: "c \<in> set (calls (getWeatherByCity k g lc t))"
    and resolved: "g c = Resolved d"
    and recs: "records d = Some recs"
    and loc: "location recs = Some (loc # locs)"
    and elements: "weatherElement loc = Some (first # rest)"
    and time0: "time first = Some time0"
    and al: "aligned (first # rest) (length time0)"
  shows "\<exists>fs. response (getWeatherByCity k g lc t) =
                 Some \<lparr>status = 200,
                       body = SuccessBody \<lparr>city = locationName loc,
                                           updateTime = datasetDescription recs,
                                           forecasts = fs\<rparr>\<rparr> \<and>
              length fs = length time0 \<and>
              (\<forall>i<length time0.
                 (Some ''Wx'' \<notin> elementName ` set (first # rest) \<longrightarrow> weather (fs ! i) = Some '''') \<and>
                 (Some ''PoP'' \<notin> elementName ` set (first # rest) \<longrightarrow> rain (fs ! i) = Some '''') \<and>
                 (Some ''MinT'' \<notin> elementName ` set (first # rest) \<longrightarrow> minTemp (fs ! i) = Some '''') \<and>
                 (Some ''MaxT'' \<notin> elementName ` set (first # rest) \<longrightarrow> maxTemp (fs ! i) = Some '''') \<and>
                 (Some ''CI'' \<notin> elementName ` set (first # rest) \<longrightarrow> comfort (fs ! i) = Some '''') \<and>
                 (Some ''WS'' \<notin> elementName ` set (first # rest) \<longrightarrow> windSpeed (fs ! i) = Some ''''))"
proof -
  from build_weatherData_aligned [OF elements time0 al, of recs]
  obtain fs where built: "build_weatherData recs loc =
        Inr \<lparr>city = locationName loc, updateTime = datasetDescription recs, forecasts = fs\<rparr>"
    and len: "length fs = length time0"
    and each: "\<And>i. i < length time0 \<Longrightarrow>
                 forEach i (first # rest) (new_forecast (time0 ! i)) = Inr (fs ! i)"
    by blast
  have resp: "response (getWeatherByCity k g lc t) =
      Some \<lparr>status = 200,
            body = SuccessBody \<lparr>city = locationName loc, updateTime = datasetDescription recs,
                                forecasts = fs\<rparr>\<rparr>"
    using getWeatherByCity_call(2) [OF call]
      try_request_success [where g = g and c = c, OF resolved recs loc built]
    by simp
  have entry: "(Some ''Wx'' \<notin> elementName ` set (first # rest) \<longrightarrow> weather (fs ! i) = Some '''') \<and>
      (Some ''PoP'' \<notin> elementName ` set (first # rest) \<longrightarrow> rain (fs ! i) = Some '''') \<and>
      (Some ''MinT'' \<notin> elementName ` set (first # rest) \<longrightarrow> minTemp (fs ! i) = Some '''') \<and>
      (Some ''MaxT'' \<notin> elementName ` set (first # rest) \<longrightarrow> maxTemp (fs ! i) = Some '''') \<and>
      (Some ''CI'' \<notin> elementName ` set (first # rest) \<longrightarrow> comfort (fs ! i) = Some '''') \<and>
      (Some ''WS'' \<notin> elementName ` set (first # rest) \<longrightarrow> windSpeed (fs ! i) = Some '''')"
    if i: "i < length time0" for i
  proof -
    note keeps = forEach_keeps(3-8) [OF each [OF i]]
    have "weather (fs ! i) = Some ''''" if "Some ''Wx'' \<notin> elementName ` set (first # rest)"
      using keeps(1) [OF that] by (simp add: new_forecast_def)
    moreover have "rain (fs ! i) = Some ''''" if "Some ''PoP'' \<notin> elementName ` set (first # rest)"
      using keeps(2) [OF that] by (simp add: new_forecast_def)
    moreover have "minTemp (fs ! i) = Some ''''" if "Some ''MinT'' \<notin> elementName ` set (first # rest)"
      using keeps(3) [OF that] by (simp add: new_forecast_def)
    moreover have "maxTemp (fs ! i) = Some ''''" if "Some ''MaxT'' \<notin> elementName ` set (first # rest)"
      using keeps(4) [OF that] by (simp add: new_forecast_def)
    moreover have "comfort (fs ! i) = Some ''''" if "Some ''CI'' \<notin> elementName ` set (first # rest)"
      using keeps(5) [OF that] by (simp add: new_forecast_def)
    moreover have "windSpeed (fs ! i) = Some ''''" if "Some ''WS'' \<notin> elementName ` set (first # rest)"
      using keeps(6) [OF that] by (simp add: new_forecast_def)
    ultimately show ?thesis by blast
  qed
  from resp len entry show ?thesis by blast
qed

theorem getWeatherByCity_absent_element_empty_witness:
  "aligned elements_without_CI 2 \<and>
   (\<exists>fs. response (getWeatherByCity (Some ''key'')
                     (upstream_always (Resolved (sample_document elements_without_CI)))
                     lower_unchanged ''Taipei'') =
            Some \<lparr>status = 200,
                  body = SuccessBody \<lparr>city = Some zh_taipei, updateTime = Some ''forecast'',
                                      forecasts = fs\<rparr>\<rparr> \<and>
          length fs = 2 \<and> comfort (fs ! 0) = Some '''' \<and> comfort (fs ! 1) = Some '''')"
proof -
  let ?es = "elements_without_CI"
  let ?g = "upstream_always (Resolved (sample_document ?es))"
  let ?c = "request_for ''key'' (JString zh_taipei)"
  let ?loc = "\<lparr>locationName = Some zh_taipei, weatherElement = Some ?es\<rparr>"
  let ?recs = "\<lparr>datasetDescription = Some ''forecast'', location = Some [?loc]\<rparr>"
  let ?time0 = "[sample_window ''2024-01-01 06:00:00'' ''2024-01-01 18:00:00'' ''sunny'',
                 sample_window ''2024-01-01 18:00:00'' ''2024-01-02 06:00:00'' ''cloudy'']"
  have call: "?c \<in> set (calls (getWeatherByCity (Some ''key'') ?g lower_unchanged ''Taipei''))"
    by (simp add: calls_Taipei)
  have resolved: "?g ?c = Resolved (sample_document ?es)"
    by (simp add: upstream_always_def)
  have recs: "records (sample_document ?es) = Some ?recs"
    by (simp add: sample_document_def)
  have loc: "location ?recs = Some (?loc # [])"
    by simp
  have elements: "weatherElement ?loc = Some (hd ?es # tl ?es)"
    by (simp add: elements_without_CI_def)
  have time0: "time (hd ?es) = Some ?time0"
    by (simp add: elements_without_CI_def sample_element_simps)
  have all: "hd ?es # tl ?es = ?es"
    by (simp add: elements_without_CI_def)
  have al: "aligned (hd ?es # tl ?es) (length ?time0)"
    unfolding all using aligned_elements_without_CI by (simp add: numeral_2_eq_2)
  from getWeatherByCity_absent_element_empty
         [OF call resolved recs loc elements time0 al, unfolded all]
  obtain fs where raw: "response (getWeatherByCity (Some ''key'') ?g lower_unchanged ''Taipei'') =
        Some \<lparr>status = 200,
              body = SuccessBody \<lparr>city = locationName ?loc, updateTime = datasetDescription ?recs,
                                  forecasts = fs\<rparr>\<rparr>"
      "length fs = length ?time0"
    and entries: "\<forall>i<length ?time0.
        (Some ''Wx'' \<notin> elementName ` set ?es \<longrightarrow> weather (fs ! i) = Some '''') \<and>
        (Some ''PoP'' \<notin> elementName ` set ?es \<longrightarrow> rain (fs ! i) = Some '''') \<and>
        (Some ''MinT'' \<notin> elementName ` set ?es \<longrightarrow> minTemp (fs ! i) = Some '''') \<and>
        (Some ''MaxT'' \<notin> elementName ` set ?es \<longrightarrow> maxTemp (fs ! i) = Some '''') \<and>
        (Some ''CI'' \<notin> elementName ` set ?es \<longrightarrow> comfort (fs ! i) = Some '''') \<and>
        (Some ''WS'' \<notin> elementName ` set ?es \<longrightarrow> windSpeed (fs ! i) = Some '''')"
    by blast
  from raw have fs: "response (getWeatherByCity (Some ''key'') ?g lower_unchanged ''Taipei'') =
        Some \<lparr>status = 200,
              body = SuccessBody \<lparr>city = Some zh_taipei, updateTime = Some ''forecast'',
                                  forecasts = fs\<rparr>\<rparr>"
      "length fs = 2"
    by simp_all
  have no_CI: "Some ''CI'' \<notin> elementName ` set ?es"
    by (simp add: elements_without_CI_def sample_element_simps)
  have "comfort (fs ! 0) = Some ''''" "comfort (fs ! 1) = Some ''''"
    using entries [rule_format, of 0] entries [rule_format, of 1] no_CI by simp_all
  with aligned_elements_without_CI fs show ?thesis by blast
qed

text \<open>
  C2 as stated fails: \<open>ragged_without_CI\<close> has no \<^verbatim>\<open>CI\<close> element at all, and its
  \<^verbatim>\<open>MinT\<close> element is absent at index 1. The request does not succeed with empty
  fields: the read at index 1 throws and the answer is the 500 error envelope.
\<close>

theorem getWeatherByCity_absent_window_counterexample:
  "response (getWeatherByCity (Some ''key'')
               (upstream_always (Resolved (sample_document ragged_without_CI)))
               lower_unchanged ''Taipei'') =
     Some \<lparr>status = 500,
           body = ErrorBody \<lparr>error = err_server, message = Some (JStr msg_retry_later),
                             details = None\<rparr>\<rparr>"
  by code_simp

text \<open>
  C3 (as amended). When the outbound call fails with an upstream response of status \<open>s\<close>
  and a body \<open>b\<close> other than \<^verbatim>\<open>null\<close>, the handler answers with status exactly \<open>s\<close> and
  with \<open>details\<close> equal to \<open>b\<close>. The message is the value of \<open>b\<close>'s message member, of
  whatever JSON type, when \<open>b\<close> is an object that has one and the value is none of
  \<^verbatim>\<open>null\<close>, \<^verbatim>\<open>false\<close>, \<^verbatim>\<open>0\<close> and the empty string; otherwise it is the fixed fallback.
\<close>

theorem getWeatherByCity_upstream_error:
  assumes "c \<in> set (calls (getWeatherByCity k g lc t))" and "g c = Rejected (Some r)"
    and "data r = Some b" and "b \<noteq> JNull"
  shows "response (getWeatherByCity k g lc t) =
           Some \<lparr>status = error_response.status r,
                 body = ErrorBody
                          \<lparr>error = err_cwa_api,
                           message = Some (case message_member b of
                                             None \<Rightarrow> JStr msg_cannot_get_weather
                                           | Some v \<Rightarrow>
                                               if v \<in> set falsy_values
                                               then JStr msg_cannot_get_weather else v),
                           details = Some b\<rparr>\<rparr>"
  using getWeatherByCity_call(2) [OF assms(1)] assms(2,3) read_message_body [OF assms(4)]
  by (simp add: try_request_def catch_def or_else_def json_truthy_iff split: option.splits)

theorem getWeatherByCity_upstream_error_witness:
  "response (getWeatherByCity (Some ''key'')
               (upstream_always
                  (Rejected (Some (upstream_failure 503
                                     (JObject [(''message'', JStr ''maintenance'')])))))
               lower_unchanged ''taipei'') =
     Some \<lparr>status = 503,
           body = ErrorBody \<lparr>error = err_cwa_api, message = Some (JStr ''maintenance''),
                             details = Some (JObject [(''message'', JStr ''maintenance'')])\<rparr>\<rparr>"
proof -
  let ?b = "JObject [(''message'', JStr ''maintenance'')]"
  let ?r = "upstream_failure 503 ?b"
  let ?g = "upstream_always (Rejected (Some ?r))"
  let ?c = "request_for ''key'' (JString zh_taipei)"
  have call: "?c \<in> set (calls (getWeatherByCity (Some ''key'') ?g lower_unchanged ''taipei''))"
    by (simp add: calls_taipei)
  have rejected: "?g ?c = Rejected (Some ?r)"
    by (simp add: upstream_always_def)
  have body: "data ?r = Some ?b"
    by (simp add: upstream_failure_def)
  have not_null: "?b \<noteq> JNull"
    by simp
  from getWeatherByCity_upstream_error [OF call rejected body not_null] show ?thesis
    by (simp add: upstream_failure_def message_member_def falsy_values_def)
qed

text \<open>
  C3 as stated fails: a body whose message member is present but empty is answered with
  the fallback message, not with the body's message.
\<close>

theorem getWeatherByCity_empty_message_counterexample:
  "response (getWeatherByCity (Some ''key'')
               (upstream_always
                  (Rejected (Some (upstream_failure 503 (JObject [(''message'', JStr '''')])))))
               lower_unchanged ''taipei'') =
     Some \<lparr>status = 503,
           body = ErrorBody \<lparr>error = err_cwa_api, message = Some (JStr msg_cannot_get_weather),
                             details = Some (JObject [(''message'', JStr '''')])\<rparr>\<rparr> \<and>
   message_member (JObject [(''message'', JStr '''')]) = Some (JStr '''') \<and>
   msg_cannot_get_weather \<noteq> ''''"
  by code_simp

text \<open>
  C4 fails in the 400 branch. For a token outside the city table (here \<^verbatim>\<open>osaka\<close>) the
  body is the error label alone: it has no message member, unlike the bodies of the
  other four error branches.
\<close>

theorem getWeatherByCity_unsupported_city_body:
  "getWeatherByCity (Some ''key'') g lc ''osaka'' =
     \<lparr>calls = [],
      response = Some \<lparr>status = 400,
                       body = ErrorBody \<lparr>error = err_unsupported_city, message = None,
                                         details = None\<rparr>\<rparr>\<rparr>"
  by (simp add: getWeatherByCity_def Let_def toLowerCase_def is_ascii_def lower_char_simps
        get_property_def cityMap_def Object_prototype_def Object_prototype_functions_def)

text \<open>
  C5. For every entry of the city table, every token that agrees with the entry's key up
  to letter case (the lower-case key, the capitalised key, the key in capitals, or any
  other mix) resolves to the entry's canonical name, and that is the location the handler
  asks upstream for.
\<close>

theorem city_lookup_ignores_case:
  assumes "(key, name) \<in> set cityMap" and "same_ignoring_case t key"
  shows "get_property cityMap (toLowerCase lc t) = JString name \<and>
         calls (getWeatherByCity k g lc t) =
           (if truthy (js k) then [request_for (ToString (js k)) (JString name)] else [])"
proof -
  from assms(1) have "is_ascii key"
    using cityMap_keys_ascii by auto
  with assms(2) have "toLowerCase lc t = map lower_char key"
    by (rule toLowerCase_same)
  with assms(1) have look: "get_property cityMap (toLowerCase lc t) = JString name"
    using cityMap_lower_keys by auto
  from assms(1) have "name \<noteq> []"
    using cityMap_names_nonempty by auto
  with look show ?thesis
    by (simp add: getWeatherByCity_calls request_for_def)
qed

theorem city_lookup_ignores_case_witness:
  "get_property cityMap (toLowerCase lower_unchanged ''taipei'') = JString zh_taipei \<and>
   get_property cityMap (toLowerCase lower_unchanged ''Taipei'') = JString zh_taipei \<and>
   get_property cityMap (toLowerCase lower_unchanged ''TAIPEI'') = JString zh_taipei \<and>
   calls (getWeatherByCity (Some ''key'') (upstream_always (Rejected None)) lower_unchanged
            ''taipei'') = [request_for ''key'' (JString zh_taipei)] \<and>
   calls (getWeatherByCity (Some ''key'') (upstream_always (Rejected None)) lower_unchanged
            ''Taipei'') = [request_for ''key'' (JString zh_taipei)] \<and>
   calls (getWeatherByCity (Some ''key'') (upstream_always (Rejected None)) lower_unchanged
            ''tAIPEi'') = [request_for ''key'' (JString zh_taipei)]"
proof -
  have entry: "(''Taipei'', zh_taipei) \<in> set cityMap"
    by (simp add: cityMap_def)
  have same: "same_ignoring_case ''taipei'' ''Taipei''" "same_ignoring_case ''Taipei'' ''Taipei''"
    "same_ignoring_case ''TAIPEI'' ''Taipei''" "same_ignoring_case ''tAIPEi'' ''Taipei''"
    by (simp_all add: same_ignoring_case_def same_letter_def letter_cases_def)
  note inst = city_lookup_ignores_case [OF entry, of _ lower_unchanged "Some ''key''"
      "upstream_always (Rejected None)"]
  from inst [OF same(1)] inst [OF same(2)] inst [OF same(3)] inst [OF same(4)]
  show ?thesis by simp
qed

text \<open>
  C6 fails for the token \<^verbatim>\<open>constructor\<close>. It is not a key of the city table, but
  \<^verbatim>\<open>cityMap["constructor"]\<close> is the function \<^verbatim>\<open>Object\<close>, inherited from the prototype and
  truthy: the handler sends it upstream as \<^verbatim>\<open>locationName\<close> and answers what the call
  gives (here 404 for an empty location list) instead of 400.
\<close>

theorem getWeatherByCity_constructor_token:
  "map_of cityMap (toLowerCase lc ''constructor'') = None \<and>
   getWeatherByCity (Some ''key'') (upstream_always (Resolved document_empty_location)) lc
     ''constructor'' =
     \<lparr>calls = [request_for ''key'' (JFunction ''Object'')],
      response =
        Some \<lparr>status = 404,
              body = ErrorBody
                       \<lparr>error = err_no_data,
                        message = Some (JStr (msg_cannot_get @
                                              ''function Object() { [native code] }'' @
                                              msg_weather_data)),
                        details = None\<rparr>\<rparr>\<rparr>"
proof -
  have low: "toLowerCase lc ''constructor'' = ''constructor''"
    by (simp add: toLowerCase_def is_ascii_def lower_char_simps)
  have own: "map_of cityMap ''constructor'' = None"
    by (simp add: cityMap_def)
  then have look: "get_property cityMap ''constructor'' = JFunction ''Object''"
    by (simp add: get_property_def Object_prototype_def Object_prototype_functions_def)
  show ?thesis
    by (simp add: low own look getWeatherByCity_def Let_def request_for_def
          try_request_no_data [where d = document_empty_location] upstream_always_def
          document_empty_location_def)
qed

text \<open>
  C7. Without a credential (the variable unset or empty) the handler answers with the
  configuration fault, status 500, and makes no outbound call, whatever the city token
  and whatever the upstream service would have answered.
\<close>

theorem getWeatherByCity_no_credential:
  assumes "\<not> truthy (js CWA_API_KEY)"
  shows "calls (getWeatherByCity CWA_API_KEY g lc t) = [] \<and>
         response (getWeatherByCity CWA_API_KEY g lc t) =
           Some \<lparr>status = 500,
                 body = ErrorBody \<lparr>error = err_server_config,
                                   message = Some (JStr msg_set_api_key),
                                   details = None\<rparr>\<rparr>"
  using assms by (simp add: getWeatherByCity_def config_fault_def)

theorem getWeatherByCity_no_credential_witness:
  "calls (getWeatherByCity None (upstream_always (Resolved (sample_document six_elements)))
            lower_unchanged ''taipei'') = [] \<and>
   response (getWeatherByCity None (upstream_always (Resolved (sample_document six_elements)))
               lower_unchanged ''taipei'') =
     Some \<lparr>status = 500,
           body = ErrorBody \<lparr>error = err_server_config, message = Some (JStr msg_set_api_key),
                             details = None\<rparr>\<rparr>"
proof -
  have "\<not> truthy (js None)" by simp
  from getWeatherByCity_no_credential [OF this] show ?thesis .
qed




text \<open>
  C9. When the outbound call fails and the error carries no response, the handler answers
  500 with the fixed retry-later message, and that call is the only one it made.
\<close>

theorem getWeatherByCity_network_fault:
  assumes "c \<in> set (calls (getWeatherByCity k g lc t))" and "g c = Rejected None"
  shows "calls (getWeatherByCity k g lc t) = [c] \<and>
         response (getWeatherByCity k g lc t) =
           Some \<lparr>status = 500,
                 body = ErrorBody \<lparr>error = err_server, message = Some (JStr msg_retry_later),
                                   details = None\<rparr>\<rparr>"
  using getWeatherByCity_call(1,2) [OF assms(1)] assms(2)
  by (simp add: try_request_def catch_def)

theorem getWeatherByCity_network_fault_witness:
  "calls (getWeatherByCity (Some ''key'') (upstream_always (Rejected None)) lower_unchanged
            ''taipei'') = [request_for ''key'' (JString zh_taipei)] \<and>
   response (getWeatherByCity (Some ''key'') (upstream_always (Rejected None)) lower_unchanged
               ''taipei'') =
     Some \<lparr>status = 500,
           body = ErrorBody \<lparr>error = err_server, message = Some (JStr msg_retry_later),
                             details = None\<rparr>\<rparr>"
proof -
  let ?g = "upstream_always (Rejected None)"
  let ?c = "request_for ''key'' (JString zh_taipei)"
  have call: "?c \<in> set (calls (getWeatherByCity (Some ''key'') ?g lower_unchanged ''taipei''))"
    by (simp add: calls_taipei)
  have rejected: "?g ?c = Rejected None"
    by (simp add: upstream_always_def)
  from getWeatherByCity_network_fault [OF call rejected] show ?thesis .
qed

text \<open>
  C10 (as amended). Every outbound call of \<open>getKaohsiungWeather\<close> asks for the location
  U+6843 U+5712 U+5E02 (Taoyuan City), which is not the name of Kaohsiung City in the
  city table, and when the location list comes back empty the 404 message names Taoyuan
  City as well. When the list comes back with an entry whose elements are aligned, the
  handler answers 200 and reports as \<open>city\<close> the location name of that entry, whatever
  the upstream wrote there, with one forecast per time window of the first element.
\<close>

theorem getKaohsiungWeather_asks_for_Taoyuan:
  assumes "c \<in> set (calls (getKaohsiungWeather k g))"
  shows "calls (getKaohsiungWeather k g) = [c] \<and>
         params_locationName c = JString zh_taoyuan \<and>
         zh_taoyuan \<noteq> zh_kaohsiung \<and>
         map_of cityMap ''taoyuan'' = Some zh_taoyuan \<and>
         map_of cityMap ''kaohsiung'' = Some zh_kaohsiung \<and>
         (\<forall>d recs. g c = Resolved d \<and> records d = Some recs \<and> location recs = Some [] \<longrightarrow>
            response (getKaohsiungWeather k g) =
              Some \<lparr>status = 404,
                    body = ErrorBody
                             \<lparr>error = err_no_data,
                              message = Some (JStr (msg_cannot_get @ zh_taoyuan @ msg_weather_data)),
                              details = None\<rparr>\<rparr>) \<and>
         (\<forall>d recs loc locs first rest time0.
            g c = Resolved d \<and> records d = Some recs \<and> location recs = Some (loc # locs) \<and>
            weatherElement loc = Some (first # rest) \<and> time first = Some time0 \<and>
            aligned (first # rest) (length time0) \<longrightarrow>
            (\<exists>fs. response (getKaohsiungWeather k g) =
                     Some \<lparr>status = 200,
                           body = SuccessBody \<lparr>city = locationName loc,
                                               updateTime = datasetDescription recs,
                                               forecasts = fs\<rparr>\<rparr> \<and>
                  length fs = length time0))"
proof -
  have names: "zh_taoyuan \<noteq> zh_kaohsiung"
    by (simp add: zh_taoyuan_def zh_kaohsiung_def)
  have table: "map_of cityMap ''taoyuan'' = Some zh_taoyuan"
    "map_of cityMap ''kaohsiung'' = Some zh_kaohsiung"
    by (simp_all add: cityMap_def)
  have msg: "msg_no_taoyuan_data = msg_cannot_get @ zh_taoyuan @ msg_weather_data"
    by (simp add: msg_no_taoyuan_data_def msg_cannot_get_def zh_taoyuan_def msg_weather_data_def)
  note c = getKaohsiungWeather_call [OF assms]
  have none: "response (getKaohsiungWeather k g) =
      Some \<lparr>status = 404,
            body = ErrorBody
                     \<lparr>error = err_no_data,
                      message = Some (JStr (msg_cannot_get @ zh_taoyuan @ msg_weather_data)),
                      details = None\<rparr>\<rparr>"
    if "g c = Resolved d" "records d = Some recs" "location recs = Some []" for d recs
    using try_request_no_data [where g = g and c = c, OF that] c(2) msg by simp
  have some: "\<exists>fs. response (getKaohsiungWeather k g) =
                     Some \<lparr>status = 200,
                           body = SuccessBody \<lparr>city = locationName loc,
                                               updateTime = datasetDescription recs,
                                               forecasts = fs\<rparr>\<rparr> \<and>
                  length fs = length time0"
    if "g c = Resolved d" "records d = Some recs" "location recs = Some (loc # locs)"
      "weatherElement loc = Some (first # rest)" "time first = Some time0"
      "aligned (first # rest) (length time0)" for d recs loc locs first rest time0
  proof -
    from build_weatherData_aligned [OF that(4,5,6), of recs]
    obtain fs where built: "build_weatherData recs loc =
          Inr \<lparr>city = locationName loc, updateTime = datasetDescription recs, forecasts = fs\<rparr>"
      and len: "length fs = length time0"
      by blast
    from try_request_success [where g = g and c = c, OF that(1,2,3) built] c(2) len
    show ?thesis by simp
  qed
  from c(1,3) names table none some show ?thesis by blast
qed

theorem getKaohsiungWeather_asks_for_Taoyuan_witness:
  "calls (getKaohsiungWeather (Some ''key'') (upstream_always (Resolved document_empty_location))) =
     [request_for ''key'' (JString zh_taoyuan)] \<and>
   zh_taoyuan \<noteq> zh_kaohsiung \<and>
   response (getKaohsiungWeather (Some ''key'')
               (upstream_always (Resolved document_empty_location))) =
     Some \<lparr>status = 404,
           body = ErrorBody \<lparr>error = err_no_data,
                             message = Some (JStr (msg_cannot_get @ zh_taoyuan @ msg_weather_data)),
                             details = None\<rparr>\<rparr> \<and>
   aligned six_elements 2 \<and>
   (\<exists>fs. response (getKaohsiungWeather (Some ''key'')
                     (upstream_always (Resolved taoyuan_document))) =
            Some \<lparr>status = 200,
                  body = SuccessBody \<lparr>city = Some zh_taoyuan, updateTime = Some ''forecast'',
                                      forecasts = fs\<rparr>\<rparr> \<and>
          length fs = 2)"
proof -
  let ?c = "request_for ''key'' (JString zh_taoyuan)"
  let ?g0 = "upstream_always (Resolved document_empty_location)"
  let ?recs0 = "\<lparr>datasetDescription = Some ''forecast'', location = Some []\<rparr>"
  have call0: "?c \<in> set (calls (getKaohsiungWeather (Some ''key'') ?g0))"
    by (simp add: getKaohsiungWeather_def request_for_def Let_def)
  have resolved0: "?g0 ?c = Resolved document_empty_location"
    by (simp add: upstream_always_def)
  have recs0: "records document_empty_location = Some ?recs0"
    by (simp add: document_empty_location_def)
  have loc0: "location ?recs0 = Some []"
    by simp
  from getKaohsiungWeather_asks_for_Taoyuan [OF call0] resolved0 recs0 loc0
  have part0: "calls (getKaohsiungWeather (Some ''key'') ?g0) = [?c]"
    "zh_taoyuan \<noteq> zh_kaohsiung"
    "response (getKaohsiungWeather (Some ''key'') ?g0) =
       Some \<lparr>status = 404,
             body = ErrorBody \<lparr>error = err_no_data,
                               message = Some (JStr (msg_cannot_get @ zh_taoyuan @ msg_weather_data)),
                               details = None\<rparr>\<rparr>"
    by blast+
  let ?g1 = "upstream_always (Resolved taoyuan_document)"
  let ?loc = "\<lparr>locationName = Some zh_taoyuan, weatherElement = Some six_elements\<rparr>"
  let ?recs1 = "\<lparr>datasetDescription = Some ''forecast'', location = Some [?loc]\<rparr>"
  let ?time0 = "[sample_window ''2024-01-01 06:00:00'' ''2024-01-01 18:00:00'' ''sunny'',
                 sample_window ''2024-01-01 18:00:00'' ''2024-01-02 06:00:00'' ''cloudy'']"
  have call1: "?c \<in> set (calls (getKaohsiungWeather (Some ''key'') ?g1))"
    by (simp add: getKaohsiungWeather_def request_for_def Let_def)
  have resolved1: "?g1 ?c = Resolved taoyuan_document"
    by (simp add: upstream_always_def)
  have recs1: "records taoyuan_document = Some ?recs1"
    by (simp add: taoyuan_document_def)
  have loc1: "location ?recs1 = Some (?loc # [])"
    by simp
  have all: "hd six_elements # tl six_elements = six_elements"
    by (simp add: six_elements_def)
  have elements: "weatherElement ?loc = Some (hd six_elements # tl six_elements)"
    by (simp add: all)
  have time0: "time (hd six_elements) = Some ?time0"
    by (simp add: six_elements_def sample_element_simps)
  have al: "aligned (hd six_elements # tl six_elements) (length ?time0)"
    unfolding all using aligned_six_elements by (simp add: numeral_2_eq_2)
  from getKaohsiungWeather_asks_for_Taoyuan [OF call1] resolved1 recs1 loc1 elements time0 al
  have "\<exists>fs. response (getKaohsiungWeather (Some ''key'') ?g1) =
            Some \<lparr>status = 200,
                  body = SuccessBody \<lparr>city = locationName ?loc,
                                      updateTime = datasetDescription ?recs1,
                                      forecasts = fs\<rparr>\<rparr> \<and>
          length fs = length ?time0"
    by blast
  then have part1: "\<exists>fs. response (getKaohsiungWeather (Some ''key'') ?g1) =
            Some \<lparr>status = 200,
                  body = SuccessBody \<lparr>city = Some zh_taoyuan, updateTime = Some ''forecast'',
                                      forecasts = fs\<rparr>\<rparr> \<and>
          length fs = 2"
    by (simp add: numeral_2_eq_2)
  from part0 part1 aligned_six_elements show ?thesis by blast
qed

text \<open>
  C10 as stated fails in its last clause: the handler echoes the location name of the
  upstream document. When the upstream answers the Taoyuan query with a document that
  names Kaohsiung City, the handler reports Kaohsiung City.
\<close>

theorem getKaohsiungWeather_echo_counterexample:
  "response (getKaohsiungWeather (Some ''key'') (upstream_always (Resolved kaohsiung_document))) =
     Some \<lparr>status = 200,
           body = SuccessBody
                    \<lparr>city = Some zh_kaohsiung, updateTime = Some ''forecast'',
                     forecasts =
                       [\<lparr>startTime = Some ''2024-01-01 06:00:00'',
                         endTime = Some ''2024-01-01 18:00:00'',
                         weather = Some ''sunny'', rain = Some ''10%'',
                         minTemp = Some (''18'' @ degC), maxTemp = Some (''25'' @ degC),
                         comfort = Some ''comfortable'', windSpeed = Some ''light''\<rparr>,
                        \<lparr>startTime = Some ''2024-01-01 18:00:00'',
                         endTime = Some ''2024-01-02 06:00:00'',
                         weather = Some ''cloudy'', rain = Some ''30%'',
                         minTemp = Some (''16'' @ degC), maxTemp = Some (''21'' @ degC),
                         comfort = Some ''cool'', windSpeed = Some ''breezy''\<rparr>]\<rparr>\<rparr>"
  by code_simp

end
